theory Spec2Isabelle
  imports Main "HOL-Library.Word"
begin

unbundle bit_operations_syntax

section \<open>The CHIP-8 processor of \<^verbatim>\<open>chip8/emulator.py\<close>\<close>

text \<open>
  The development embeds the method \<^verbatim>\<open>Emulator.run_once\<close> (one fetch, decode and
  execute cycle) and \<^verbatim>\<open>Emulator.decrement_timers\<close>. Python integers are unbounded,
  so registers, the program counter, the index register and the stack pointer are \<open>int\<close>;
  nothing in the source keeps them inside a machine width except the loops and masks that
  are written out below.
\<close>

subsection \<open>Exceptions, signals and outcomes\<close>

text \<open>
  \<open>UnimplementedInstruction instruction address\<close> is the exception class of the source.
  The other constructors are the exceptions that the memory store and the Python
  built-ins used by \<^verbatim>\<open>run_once\<close> raise.
\<close>

datatype error =
    UnimplementedInstruction int int
  | OutOfBounds
  | OverflowError
  | ValueError
  | TypeError
  | IndexError

text \<open>
  What one call tells the host: the Qt signals \<^verbatim>\<open>display_changed\<close> and
  \<^verbatim>\<open>emulation_error\<close>, and the call \<^verbatim>\<open>self.parent.actionPause.setChecked(True)\<close>.
\<close>

datatype signal =
    display_changed
  | emulation_error error
  | actionPause_setChecked bool

datatype outcome = Returned | Raised error

subsection \<open>Python built-ins\<close>

text \<open>\<^verbatim>\<open>int.from_bytes(bs, byteorder="big")\<close>.\<close>

definition from_bytes_big :: "8 word list \<Rightarrow> int" where
  "from_bytes_big bs = foldl (\<lambda>acc b. acc * 256 + uint b) 0 bs"

text \<open>\<^verbatim>\<open>int.to_bytes(x, 2, byteorder="big")\<close>: OverflowError unless \<open>0 \<le> x < 65536\<close>.\<close>

definition to_bytes_big2 :: "int \<Rightarrow> error + 8 word list" where
  "to_bytes_big2 x =
     (if 0 \<le> x \<and> x < 65536 then Inr [word_of_int (x div 256), word_of_int (x mod 256)]
      else Inl OverflowError)"

subsection \<open>Memory\<close>

text \<open>
  Modelled from the spec: the class \<^verbatim>\<open>Memory\<close> of \<^verbatim>\<open>chip8/memory.py\<close>, which is not
  among the sources. The spec describes a flat byte array that is never resized, with
  indexed get and set of single bytes and of contiguous ranges, each failing with
  OutOfBounds when the requested span exceeds the store. The size of the store is the
  length of the list. The spec is silent on a store of a value that is no byte; the
  model refuses it with ValueError, as a Python byte array does.
\<close>

type_synonym Memory = "8 word list"

definition mem_get :: "Memory \<Rightarrow> int \<Rightarrow> error + int" where
  "mem_get m a =
     (if 0 \<le> a \<and> a < int (length m) then Inr (uint (m ! nat a)) else Inl OutOfBounds)"

definition mem_get_slice :: "Memory \<Rightarrow> int \<Rightarrow> int \<Rightarrow> error + 8 word list" where
  "mem_get_slice m a b =
     (if 0 \<le> a \<and> a \<le> b \<and> b \<le> int (length m)
      then Inr (take (nat (b - a)) (drop (nat a) m))
      else Inl OutOfBounds)"

definition mem_set :: "Memory \<Rightarrow> int \<Rightarrow> int \<Rightarrow> error + Memory" where
  "mem_set m a x =
     (if \<not> (0 \<le> a \<and> a < int (length m)) then Inl OutOfBounds
      else if \<not> (0 \<le> x \<and> x \<le> 255) then Inl ValueError
      else Inr (m[nat a := word_of_int x]))"

definition mem_set_slice :: "Memory \<Rightarrow> int \<Rightarrow> 8 word list \<Rightarrow> error + Memory" where
  "mem_set_slice m a bs =
     (if 0 \<le> a \<and> a + int (length bs) \<le> int (length m)
      then Inr (take (nat a) m @ bs @ drop (nat a + length bs) m)
      else Inl OutOfBounds)"

subsection \<open>Video memory\<close>

text \<open>
  Modelled from the spec: the class \<^verbatim>\<open>VideoMemory\<close> of \<^verbatim>\<open>chip8/display.py\<close>, which is
  not among the sources. The spec describes a fixed-size monochrome grid; the clear
  operation (\<^verbatim>\<open>reset\<close> in the source) zeroes every pixel and signals a display-changed
  event; \<open>draw_sprite x y sprite\<close> XORs each bit of each sprite byte (one row per byte,
  most significant bit first) into the pixel at
  \<open>((x + column) mod width, (y + row) mod height)\<close>, returns whether any pixel went from
  set to unset, and always raises a display-changed event at the end. The grid is stored
  row by row; each operation returns the signals it raises beside its result.
\<close>

record VideoMemory =
  vm_width :: nat
  vm_height :: nat
  vm_pixels :: "bool list"

definition vm_reset :: "VideoMemory \<Rightarrow> VideoMemory \<times> signal list" where
  "vm_reset fb =
     (fb\<lparr>vm_pixels := replicate (vm_width fb * vm_height fb) False\<rparr>, [display_changed])"

definition xor_pixel :: "int \<Rightarrow> int \<Rightarrow> bool \<Rightarrow> VideoMemory \<times> bool \<Rightarrow> VideoMemory \<times> bool" where
  "xor_pixel px py b = (\<lambda>(fb, collision).
     let i = nat (py mod int (vm_height fb)) * vm_width fb + nat (px mod int (vm_width fb));
         old = vm_pixels fb ! i
     in (fb\<lparr>vm_pixels := (vm_pixels fb)[i := (old \<noteq> b)]\<rparr>, collision \<or> (old \<and> b)))"

definition draw_sprite ::
  "int \<Rightarrow> int \<Rightarrow> 8 word list \<Rightarrow> VideoMemory \<Rightarrow> (VideoMemory \<times> bool) \<times> signal list" where
  "draw_sprite x y sprite fb =
     (fold (\<lambda>(row, byte).
              fold (\<lambda>column. xor_pixel (x + int column) (y + int row) (bit byte (7 - column)))
                   [0..<8])
           (zip [0..<length sprite] sprite) (fb, False),
      [display_changed])"

subsection \<open>The processor state\<close>

text \<open>
  The attributes of \<^verbatim>\<open>Emulator\<close> that \<^verbatim>\<open>run_once\<close> reads or writes.
  \<^verbatim>\<open>self.v = [0] * 16\<close> is a list that no statement resizes, and every register index
  of the source is a nibble of the instruction, so the theorems below take the list to
  have its 16 cells. \<open>keypress_target\<close> is \<^verbatim>\<open>None\<close> until the first FX0A.
\<close>

record Emulator =
  v :: "int list"
  program_counter :: int
  index_register :: int
  stack_pointer :: int
  delay_timer :: int
  sound_timer :: int
  waiting_for_keypress :: bool
  keypress_target :: "nat option"
  memory :: Memory
  video_memory :: VideoMemory

definition PROGRAM_COUNTER_START :: int where
  "PROGRAM_COUNTER_START = 512"

definition STACK_POINTER_START :: int where
  "STACK_POINTER_START = 82"

definition decrement_timers :: "Emulator \<Rightarrow> Emulator" where
  "decrement_timers s =
     (let s1 = (if delay_timer s > 0 then s\<lparr>delay_timer := delay_timer s - 1\<rparr> else s)
      in if sound_timer s1 > 0 then s1\<lparr>sound_timer := sound_timer s1 - 1\<rparr> else s1)"

subsection \<open>The loops of the arithmetic instructions\<close>

text \<open>
  \<^verbatim>\<open>while x > 255: x -= 256; carry = True\<close> and
  \<^verbatim>\<open>while x < 0: x += 256; borrow = True\<close>, with the flag as an accumulator.
\<close>

function sub256_loop :: "int \<Rightarrow> bool \<Rightarrow> int \<times> bool" where
  "sub256_loop x carry = (if x > 255 then sub256_loop (x - 256) True else (x, carry))"
  by pat_completeness auto
termination
  by (relation "measure (\<lambda>(x, c). nat x)") auto

function add256_loop :: "int \<Rightarrow> bool \<Rightarrow> int \<times> bool" where
  "add256_loop x borrow = (if x < 0 then add256_loop (x + 256) True else (x, borrow))"
  by pat_completeness auto
termination
  by (relation "measure (\<lambda>(x, b). nat (- x))") auto

declare sub256_loop.simps [simp del]
declare add256_loop.simps [simp del]


subsection \<open>One cycle: \<^verbatim>\<open>run_once\<close>\<close>

type_synonym result = "outcome \<times> signal list \<times> Emulator"

text \<open>
  The \<^verbatim>\<open>for key in range(16)\<close> loop at the head of \<^verbatim>\<open>run_once\<close>. \<open>Inr None\<close> is
  the \<^verbatim>\<open>else: return\<close> of the loop (no key is pressed); \<open>Inr (Some s')\<close> is the state
  with which the call goes on to the fetch: \<open>s\<close> itself when the emulator was not waiting,
  and otherwise \<open>s\<close> with the lowest pressed key stored and the flag cleared, after the
  \<^verbatim>\<open>break\<close>.
\<close>

definition poll_keypress :: "(int \<Rightarrow> bool) \<Rightarrow> Emulator \<Rightarrow> error + Emulator option" where
  "poll_keypress is_key_pressed s =
     (if waiting_for_keypress s then
        (case find (\<lambda>key. is_key_pressed (int key)) [0..<16] of
           None \<Rightarrow> Inr None
         | Some key \<Rightarrow>
             (case keypress_target s of
                None \<Rightarrow> Inl TypeError
              | Some t \<Rightarrow>
                  if t < length (v s)
                  then Inr (Some (s\<lparr>v := (v s)[t := int key], waiting_for_keypress := False\<rparr>))
                  else Inl IndexError))
      else Inr (Some s))"

text \<open>The register operands: \<^verbatim>\<open>(instruction & 0x0F00) >> 8\<close> and \<^verbatim>\<open>(instruction & 0x00F0) >> 4\<close>.\<close>

definition R1 :: "int \<Rightarrow> nat" where
  "R1 instruction = nat (drop_bit 8 (instruction AND 0x0F00))"

definition R2 :: "int \<Rightarrow> nat" where
  "R2 instruction = nat (drop_bit 4 (instruction AND 0x00F0))"

text \<open>The two register loops of FX55 and FX65, over \<^verbatim>\<open>range(R1 + 1)\<close>.\<close>

fun store_registers :: "nat list \<Rightarrow> Emulator \<Rightarrow> outcome \<times> Emulator" where
  "store_registers [] s = (Returned, s)"
| "store_registers (i # rest) s =
     (case mem_set (memory s) (index_register s + int i) (v s ! i) of
        Inl e \<Rightarrow> (Raised e, s)
      | Inr m \<Rightarrow> store_registers rest (s\<lparr>memory := m\<rparr>))"

fun load_registers :: "nat list \<Rightarrow> Emulator \<Rightarrow> outcome \<times> Emulator" where
  "load_registers [] s = (Returned, s)"
| "load_registers (i # rest) s =
     (case mem_get (memory s) (index_register s + int i) of
        Inl e \<Rightarrow> (Raised e, s)
      | Inr x \<Rightarrow> load_registers rest (s\<lparr>v := (v s)[i := x]\<rparr>))"

text \<open>
  The branches of the \<^verbatim>\<open>if\<close>/\<^verbatim>\<open>elif\<close> chain that do more than one assignment. In each,
  \<open>s\<close> is the state after the fetch, with the program counter already advanced.
\<close>

definition op_return :: "Emulator \<Rightarrow> result" where
  "op_return s =
     (let s1 = s\<lparr>stack_pointer := stack_pointer s - 2\<rparr> in
      case mem_get_slice (memory s1) (stack_pointer s1) (stack_pointer s1 + 2) of
        Inl e \<Rightarrow> (Raised e, [], s1)
      | Inr bs \<Rightarrow> (Returned, [], s1\<lparr>program_counter := from_bytes_big bs\<rparr>))"

definition op_jump :: "int \<Rightarrow> Emulator \<Rightarrow> result" where
  "op_jump target s =
     (Returned,
      (if program_counter s - 2 = target then [actionPause_setChecked True] else []),
      s\<lparr>program_counter := target\<rparr>)"

definition op_call :: "int \<Rightarrow> Emulator \<Rightarrow> result" where
  "op_call instruction s =
     (case to_bytes_big2 (program_counter s) of
        Inl e \<Rightarrow> (Raised e, [], s)
      | Inr return_address \<Rightarrow>
          (case mem_set_slice (memory s) (stack_pointer s) return_address of
             Inl e \<Rightarrow> (Raised e, [], s)
           | Inr m \<Rightarrow>
               (Returned, [],
                s\<lparr>memory := m, stack_pointer := stack_pointer s + 2,
                  program_counter := instruction AND 0x0FFF\<rparr>)))"

definition skip_if :: "bool \<Rightarrow> Emulator \<Rightarrow> result" where
  "skip_if c s =
     (Returned, [], if c then s\<lparr>program_counter := program_counter s + 2\<rparr> else s)"

definition set_v :: "nat \<Rightarrow> int \<Rightarrow> Emulator \<Rightarrow> Emulator" where
  "set_v i x s = s\<lparr>v := (v s)[i := x]\<rparr>"

definition op_add_value :: "int \<Rightarrow> Emulator \<Rightarrow> result" where
  "op_add_value instruction s =
     (let s1 = set_v (R1 instruction) (v s ! R1 instruction + (instruction AND 0x00FF)) s
      in (Returned, [],
          set_v (R1 instruction) (fst (sub256_loop (v s1 ! R1 instruction) False)) s1))"

definition op_add :: "int \<Rightarrow> Emulator \<Rightarrow> result" where
  "op_add instruction s =
     (let s1 = set_v (R1 instruction) (v s ! R1 instruction + v s ! R2 instruction) s;
          (x, carry) = sub256_loop (v s1 ! R1 instruction) False;
          s2 = set_v (R1 instruction) x s1
      in (Returned, [], set_v 0xF (if carry then 1 else 0) s2))"

definition op_sub :: "int \<Rightarrow> Emulator \<Rightarrow> result" where
  "op_sub instruction s =
     (let s1 = set_v (R1 instruction) (v s ! R1 instruction - v s ! R2 instruction) s;
          (x, borrow) = add256_loop (v s1 ! R1 instruction) False;
          s2 = set_v (R1 instruction) x s1
      in (Returned, [], set_v 0xF (if borrow then 0 else 1) s2))"

definition op_sub_reverse :: "int \<Rightarrow> Emulator \<Rightarrow> result" where
  "op_sub_reverse instruction s =
     (let s1 = set_v (R1 instruction) (v s ! R2 instruction - v s ! R1 instruction) s;
          (x, borrow) = add256_loop (v s1 ! R1 instruction) False;
          s2 = set_v (R1 instruction) x s1
      in (Returned, [], set_v 0xF (if borrow then 0 else 1) s2))"

definition op_shift_right :: "int \<Rightarrow> Emulator \<Rightarrow> result" where
  "op_shift_right instruction s =
     (let s1 = set_v 0xF (v s ! R1 instruction AND 1) s
      in (Returned, [], set_v (R1 instruction) (drop_bit 1 (v s1 ! R1 instruction)) s1))"

definition op_shift_left :: "int \<Rightarrow> Emulator \<Rightarrow> result" where
  "op_shift_left instruction s =
     (let s1 = set_v 0xF (drop_bit 7 (v s ! R1 instruction AND 0x80)) s
      in (Returned, [], set_v (R1 instruction) (push_bit 1 (v s1 ! R1 instruction)) s1))"

definition op_draw :: "int \<Rightarrow> Emulator \<Rightarrow> result" where
  "op_draw instruction s =
     (let x = v s ! R1 instruction; y = v s ! R2 instruction in
      case mem_get_slice (memory s) (index_register s)
             (index_register s + (instruction AND 0x000F)) of
        Inl e \<Rightarrow> (Raised e, [], s)
      | Inr sprite \<Rightarrow>
          (case draw_sprite x y sprite (video_memory s) of
             ((fb, collision), signals) \<Rightarrow>
               (Returned, signals @ [display_changed],
                set_v 0xF (if collision then 1 else 0) (s\<lparr>video_memory := fb\<rparr>))))"

definition op_add_index :: "int \<Rightarrow> Emulator \<Rightarrow> result" where
  "op_add_index instruction s =
     (let s1 = s\<lparr>index_register := index_register s + v s ! R1 instruction\<rparr>
      in if index_register s1 > 0xFFF
         then (Returned, [], set_v 0xF 1 (s1\<lparr>index_register := index_register s1 - 0x1000\<rparr>))
         else (Returned, [], set_v 0xF 0 s1))"

definition op_bcd :: "int \<Rightarrow> Emulator \<Rightarrow> result" where
  "op_bcd instruction s =
     (let value = v s ! R1 instruction in
      case mem_set (memory s) (index_register s) (value div 100) of
        Inl e \<Rightarrow> (Raised e, [], s)
      | Inr m1 \<Rightarrow>
          (let value' = value mod 100 in
           case mem_set m1 (index_register s + 1) (value' div 10) of
             Inl e \<Rightarrow> (Raised e, [], s\<lparr>memory := m1\<rparr>)
           | Inr m2 \<Rightarrow>
               (case mem_set m2 (index_register s + 2) (value' mod 10) of
                  Inl e \<Rightarrow> (Raised e, [], s\<lparr>memory := m2\<rparr>)
                | Inr m3 \<Rightarrow> (Returned, [], s\<lparr>memory := m3\<rparr>))))"

definition op_unimplemented :: "int \<Rightarrow> Emulator \<Rightarrow> result" where
  "op_unimplemented instruction s =
     (let exception = UnimplementedInstruction instruction (program_counter s - 2)
      in (Raised exception, [emulation_error exception], s))"

text \<open>
  The chain itself, in the order of the source. \<open>FONT_START\<close> is a constant of
  \<^verbatim>\<open>chip8/memory.py\<close>, which is not among the sources, and is taken as a parameter;
  \<open>is_key_pressed\<close> is the method of the host window; \<open>rand\<close> is the value that
  \<^verbatim>\<open>randint(0, 255)\<close> returns in this call.
\<close>

definition execute :: "int \<Rightarrow> (int \<Rightarrow> bool) \<Rightarrow> int \<Rightarrow> int \<Rightarrow> Emulator \<Rightarrow> result" where
  "execute FONT_START is_key_pressed rand instruction s =
    (if instruction = 0x00E0 then
       (case vm_reset (video_memory s) of
          (fb, signals) \<Rightarrow> (Returned, signals, s\<lparr>video_memory := fb\<rparr>))
     else if instruction = 0x00EE then op_return s
     else if instruction AND 0xF000 = 0x1000 then op_jump (instruction AND 0x0FFF) s
     else if instruction AND 0xF000 = 0x2000 then op_call instruction s
     else if instruction AND 0xF000 = 0x3000 then
       skip_if (v s ! R1 instruction = instruction AND 0x00FF) s
     else if instruction AND 0xF000 = 0x4000 then
       skip_if (v s ! R1 instruction \<noteq> instruction AND 0x00FF) s
     else if instruction AND 0xF00F = 0x5000 then
       skip_if (v s ! R1 instruction = v s ! R2 instruction) s
     else if instruction AND 0xF000 = 0x6000 then
       (Returned, [], set_v (R1 instruction) (instruction AND 0x00FF) s)
     else if instruction AND 0xF000 = 0x7000 then op_add_value instruction s
     else if instruction AND 0xF00F = 0x8000 then
       (Returned, [], set_v (R1 instruction) (v s ! R2 instruction) s)
     else if instruction AND 0xF00F = 0x8001 then
       (Returned, [], set_v (R1 instruction) (v s ! R1 instruction OR v s ! R2 instruction) s)
     else if instruction AND 0xF00F = 0x8002 then
       (Returned, [], set_v (R1 instruction) (v s ! R1 instruction AND v s ! R2 instruction) s)
     else if instruction AND 0xF00F = 0x8003 then
       (Returned, [], set_v (R1 instruction) (v s ! R1 instruction XOR v s ! R2 instruction) s)
     else if instruction AND 0xF00F = 0x8004 then op_add instruction s
     else if instruction AND 0xF00F = 0x8005 then op_sub instruction s
     else if instruction AND 0xF00F = 0x8006 then op_shift_right instruction s
     else if instruction AND 0xF00F = 0x8007 then op_sub_reverse instruction s
     else if instruction AND 0xF00F = 0x800E then op_shift_left instruction s
     else if instruction AND 0xF00F = 0x9000 then
       skip_if (v s ! R1 instruction \<noteq> v s ! R2 instruction) s
     else if instruction AND 0xF000 = 0xA000 then
       (Returned, [], s\<lparr>index_register := instruction AND 0x0FFF\<rparr>)
     else if instruction AND 0xF000 = 0xB000 then
       op_jump ((instruction AND 0x0FFF) + v s ! 0) s
     else if instruction AND 0xF000 = 0xC000 then
       (Returned, [], set_v (R1 instruction) (rand AND (instruction AND 0x00FF)) s)
     else if instruction AND 0xF000 = 0xD000 then op_draw instruction s
     else if instruction AND 0xF0FF = 0xE09E then
       skip_if (is_key_pressed (v s ! R1 instruction)) s
     else if instruction AND 0xF0FF = 0xE0A1 then
       skip_if (\<not> is_key_pressed (v s ! R1 instruction)) s
     else if instruction AND 0xF0FF = 0xF007 then
       (Returned, [], set_v (R1 instruction) (delay_timer s) s)
     else if instruction AND 0xF0FF = 0xF00A then
       (Returned, [],
        s\<lparr>keypress_target := Some (R1 instruction), waiting_for_keypress := True\<rparr>)
     else if instruction AND 0xF0FF = 0xF015 then
       (Returned, [], s\<lparr>delay_timer := v s ! R1 instruction\<rparr>)
     else if instruction AND 0xF0FF = 0xF018 then
       (Returned, [], s\<lparr>sound_timer := v s ! R1 instruction\<rparr>)
     else if instruction AND 0xF0FF = 0xF01E then op_add_index instruction s
     else if instruction AND 0xF0FF = 0xF029 then
       (Returned, [], s\<lparr>index_register := FONT_START + v s ! R1 instruction * 5\<rparr>)
     else if instruction AND 0xF0FF = 0xF033 then op_bcd instruction s
     else if instruction AND 0xF0FF = 0xF055 then
       (case store_registers [0..<R1 instruction + 1] s of (out, s') \<Rightarrow> (out, [], s'))
     else if instruction AND 0xF0FF = 0xF065 then
       (case load_registers [0..<R1 instruction + 1] s of (out, s') \<Rightarrow> (out, [], s'))
     else op_unimplemented instruction s)"

text \<open>
  The fetch: \<^verbatim>\<open>int.from_bytes(self.memory[pc:pc+2], byteorder="big")\<close>.
\<close>

definition fetch :: "Emulator \<Rightarrow> error + int" where
  "fetch s =
     (case mem_get_slice (memory s) (program_counter s) (program_counter s + 2) of
        Inl e \<Rightarrow> Inl e
      | Inr bs \<Rightarrow> Inr (from_bytes_big bs))"

definition run_once :: "int \<Rightarrow> (int \<Rightarrow> bool) \<Rightarrow> int \<Rightarrow> Emulator \<Rightarrow> result" where
  "run_once FONT_START is_key_pressed rand s =
     (case poll_keypress is_key_pressed s of
        Inl e \<Rightarrow> (Raised e, [], s)
      | Inr None \<Rightarrow> (Returned, [], s)
      | Inr (Some s1) \<Rightarrow>
          (case fetch s1 of
             Inl e \<Rightarrow> (Raised e, [], s1)
           | Inr instruction \<Rightarrow>
               execute FONT_START is_key_pressed rand instruction
                 (s1\<lparr>program_counter := program_counter s1 + 2\<rparr>)))"

text \<open>
  The opcode patterns of the chain: an instruction is implemented when one of the
  conditions of the source holds for it, and reaches the final \<^verbatim>\<open>else\<close> otherwise.
\<close>

definition implemented :: "int \<Rightarrow> bool" where
  "implemented instruction \<longleftrightarrow>
     instruction = 0x00E0 \<or> instruction = 0x00EE
   \<or> instruction AND 0xF000 \<in> {0x1000, 0x2000, 0x3000, 0x4000, 0x6000, 0x7000,
                                 0xA000, 0xB000, 0xC000, 0xD000}
   \<or> instruction AND 0xF00F \<in> {0x5000, 0x8000, 0x8001, 0x8002, 0x8003, 0x8004, 0x8005,
                                 0x8006, 0x8007, 0x800E, 0x9000}
   \<or> instruction AND 0xF0FF \<in> {0xE09E, 0xE0A1, 0xF007, 0xF00A, 0xF015, 0xF018, 0xF01E,
                                 0xF029, 0xF033, 0xF055, 0xF065}"

text \<open>Whether a call ended by raising \<^verbatim>\<open>UnimplementedInstruction\<close>.\<close>

definition raises_unimplemented :: "result \<Rightarrow> bool" where
  "raises_unimplemented res =
     (case fst res of Raised (UnimplementedInstruction i a) \<Rightarrow> True | _ \<Rightarrow> False)"

subsection \<open>Concrete machines\<close>

text \<open>
  The state that \<^verbatim>\<open>__init__\<close> leaves, for a store of 4096 bytes with the ROM at
  \<open>PROGRAM_COUNTER_START\<close>, given the register contents to start from. The font bytes
  play no part in what follows and are left zero.
\<close>

definition booted :: "int list \<Rightarrow> 8 word list \<Rightarrow> Emulator" where
  "booted regs rom =
     \<lparr>v = regs, program_counter = PROGRAM_COUNTER_START, index_register = 0,
      stack_pointer = STACK_POINTER_START, delay_timer = 0, sound_timer = 0,
      waiting_for_keypress = False, keypress_target = None,
      memory = replicate 512 0 @ rom @ replicate (3584 - length rom) 0,
      video_memory = \<lparr>vm_width = 64, vm_height = 32, vm_pixels = replicate 2048 False\<rparr>\<rparr>"

text \<open>The same machine after an FX0A with target register 0.\<close>

definition awaiting :: "int list \<Rightarrow> 8 word list \<Rightarrow> Emulator" where
  "awaiting regs rom = (booted regs rom)\<lparr>waiting_for_keypress := True, keypress_target := Some 0\<rparr>"

text \<open>Two hosts: one with no key pressed, one with key 5 held down.\<close>

definition no_key :: "int \<Rightarrow> bool" where
  "no_key key = False"

definition key_5 :: "int \<Rightarrow> bool" where
  "key_5 key = (key = 5)"

section \<open>Auxiliary facts\<close>

subsection \<open>Decoding\<close>

text \<open>
  A wider mask decides a narrower one, so each branch of the chain is reached exactly
  by the instructions of its pattern.
\<close>

lemma high_nibble_of_F00F: "i AND 0xF00F = c \<Longrightarrow> i AND 0xF000 = c AND (0xF000::int)"
proof -
  assume a: "i AND 0xF00F = c"
  have "i AND 0xF000 = (i AND 0xF00F) AND 0xF000" by (simp add: and.assoc)
  then show ?thesis using a by simp
qed

lemma high_nibble_of_F0FF: "i AND 0xF0FF = c \<Longrightarrow> i AND 0xF000 = c AND (0xF000::int)"
proof -
  assume a: "i AND 0xF0FF = c"
  have "i AND 0xF000 = (i AND 0xF0FF) AND 0xF000" by (simp add: and.assoc)
  then show ?thesis using a by simp
qed

lemma not_F00F_pattern:
  assumes "(i::int) AND 0xF000 = h" "h \<noteq> 0x5000" "h \<noteq> 0x8000" "h \<noteq> 0x9000"
  shows "i AND 0xF00F \<notin> {0x5000, 0x8000, 0x8001, 0x8002, 0x8003, 0x8004, 0x8005,
                            0x8006, 0x8007, 0x800E, 0x9000}"
  using assms by (auto dest!: high_nibble_of_F00F)

lemma not_F0FF_pattern:
  assumes "(i::int) AND 0xF000 = h" "h \<noteq> 0xE000" "h \<noteq> 0xF000"
  shows "i AND 0xF0FF \<notin> {0xE09E, 0xE0A1, 0xF007, 0xF00A, 0xF015, 0xF018, 0xF01E,
                            0xF029, 0xF033, 0xF055, 0xF065}"
  using assms by (auto dest!: high_nibble_of_F0FF)

lemma execute_unimplemented:
  assumes "\<not> implemented instruction"
  shows "execute F keys r instruction s = op_unimplemented instruction s"
  using assms unfolding execute_def implemented_def by simp

lemma not_implemented_0FFF: "\<not> implemented 0x0FFF"
  by (simp add: implemented_def)

lemma execute_rand_irrelevant:
  assumes "instruction AND 0xF000 \<noteq> 0xC000"
  shows "execute F keys r1 instruction s = execute F keys r2 instruction s"
  unfolding execute_def using assms by simp

lemma execute_return: "execute F keys r 0x00EE s = op_return s"
  unfolding execute_def by simp

lemma execute_jump:
  assumes "instruction AND 0xF000 = 0x1000"
  shows "execute F keys r instruction s = op_jump (instruction AND 0x0FFF) s"
proof -
  have n: "instruction \<noteq> 0x00E0" "instruction \<noteq> 0x00EE"
    using assms by auto
  show ?thesis
    unfolding execute_def using assms n by simp
qed

lemma execute_call:
  assumes "instruction AND 0xF000 = 0x2000"
  shows "execute F keys r instruction s = op_call instruction s"
proof -
  have n: "instruction \<noteq> 0x00E0" "instruction \<noteq> 0x00EE"
    using assms by auto
  show ?thesis
    unfolding execute_def using assms n by simp
qed

lemma execute_add_value:
  assumes "instruction AND 0xF000 = 0x7000"
  shows "execute F keys r instruction s = op_add_value instruction s"
proof -
  have n: "instruction \<noteq> 0x00E0" "instruction \<noteq> 0x00EE"
    using assms by auto
  have m: "instruction AND 0xF00F \<noteq> 0x5000"
    using high_nibble_of_F00F [of instruction "0x5000"] assms by auto
  show ?thesis
    unfolding execute_def using assms n m by simp
qed

lemma execute_add:
  assumes "instruction AND 0xF00F = 0x8004"
  shows "execute F keys r instruction s = op_add instruction s"
proof -
  have h: "instruction AND 0xF000 = 0x8000"
    using high_nibble_of_F00F [OF assms] by simp
  have n: "instruction \<noteq> 0x00E0" "instruction \<noteq> 0x00EE"
    using h by auto
  show ?thesis
    unfolding execute_def using assms h n by simp
qed

lemma execute_shift_left:
  assumes "instruction AND 0xF00F = 0x800E"
  shows "execute F keys r instruction s = op_shift_left instruction s"
proof -
  have h: "instruction AND 0xF000 = 0x8000"
    using high_nibble_of_F00F [OF assms] by simp
  have n: "instruction \<noteq> 0x00E0" "instruction \<noteq> 0x00EE"
    using h by auto
  show ?thesis
    unfolding execute_def using assms h n by simp
qed

lemma execute_jump_offset:
  assumes "instruction AND 0xF000 = 0xB000"
  shows "execute F keys r instruction s = op_jump ((instruction AND 0x0FFF) + v s ! 0) s"
proof -
  have n: "instruction \<noteq> 0x00E0" "instruction \<noteq> 0x00EE"
    using assms by auto
  have m: "instruction AND 0xF00F \<notin> {0x5000, 0x8000, 0x8001, 0x8002, 0x8003, 0x8004,
             0x8005, 0x8006, 0x8007, 0x800E, 0x9000}"
    by (rule not_F00F_pattern [OF assms]) simp_all
  show ?thesis
    unfolding execute_def using assms n m by simp
qed

lemma execute_bcd:
  assumes "instruction AND 0xF0FF = 0xF033"
  shows "execute F keys r instruction s = op_bcd instruction s"
proof -
  have h: "instruction AND 0xF000 = 0xF000"
    using high_nibble_of_F0FF [OF assms] by simp
  have n: "instruction \<noteq> 0x00E0" "instruction \<noteq> 0x00EE"
    using h by auto
  have m: "instruction AND 0xF00F \<notin> {0x5000, 0x8000, 0x8001, 0x8002, 0x8003, 0x8004,
             0x8005, 0x8006, 0x8007, 0x800E, 0x9000}"
    by (rule not_F00F_pattern [OF h]) simp_all
  show ?thesis
    unfolding execute_def using assms h n m by simp
qed

subsection \<open>Register operands\<close>

text \<open>
  Both operands are nibbles, so they index a list of 16 registers.
\<close>

lemma nat_and_15: "nat ((x::int) AND 15) < 16"
proof -
  have "x AND 15 < 16" by (rule AND_upper2'') simp_all
  then show ?thesis by linarith
qed

lemma R1_less: "R1 i < 16"
  unfolding R1_def using nat_and_15 by simp

lemma R2_less: "R2 i < 16"
  unfolding R2_def using nat_and_15 by simp

subsection \<open>The wrapping loops\<close>

text \<open>
  What the subtracting loop returns: the value modulo 256 when it starts from a
  non-negative one, and whether its body ran.
\<close>

lemma sub256_loop_fst: "0 \<le> x \<Longrightarrow> fst (sub256_loop x c) = x mod 256"
proof (induction x c rule: sub256_loop.induct)
  case (1 x carry)
  show ?case
  proof (cases "x > 255")
    case True
    then have "fst (sub256_loop x carry) = fst (sub256_loop (x - 256) True)"
      by (subst sub256_loop.simps) simp
    also have "\<dots> = (x - 256) mod 256" using 1 True by simp
    also have "\<dots> = x mod 256" by simp
    finally show ?thesis .
  next
    case False
    then show ?thesis using 1 by (subst sub256_loop.simps) simp
  qed
qed

lemma sub256_loop_snd: "snd (sub256_loop x c) = (c \<or> x > 255)"
proof (induction x c rule: sub256_loop.induct)
  case (1 x carry)
  show ?case
  proof (cases "x > 255")
    case True
    then have "snd (sub256_loop x carry) = snd (sub256_loop (x - 256) True)"
      by (subst sub256_loop.simps) simp
    then show ?thesis using 1 True by simp
  next
    case False
    then show ?thesis by (subst sub256_loop.simps) simp
  qed
qed

subsection \<open>The key poll and the fetch\<close>

text \<open>
  The poll picks the lowest pressed key, and touches neither the store, nor the video
  memory, nor the program counter.
\<close>

lemma find_upt_None:
  "(\<forall>key<n. \<not> P key) \<Longrightarrow> find P [0..<n] = None"
  by (simp add: find_None_iff)

lemma find_upt_least:
  assumes "key < n" "P key" "\<forall>j<key. \<not> P j"
  shows "find P [0..<n] = Some key"
proof -
  have "\<exists>i<length [0..<n]. P ([0..<n] ! i) \<and> key = [0..<n] ! i \<and> (\<forall>j<i. \<not> P ([0..<n] ! j))"
    using assms by (intro exI [of _ key]) simp
  then show ?thesis by (simp only: find_Some_iff)
qed

lemma poll_keypress_fetch:
  "poll_keypress keys s = Inr (Some s1) \<Longrightarrow> fetch s1 = fetch s"
  by (auto simp: poll_keypress_def fetch_def split: if_splits option.splits)

lemma poll_keypress_frame:
  assumes "poll_keypress keys s = Inr (Some s1)"
  shows "memory s1 = memory s" and "video_memory s1 = video_memory s"
    and "program_counter s1 = program_counter s"
    and "\<not> waiting_for_keypress s \<Longrightarrow> s1 = s"
  using assms by (auto simp: poll_keypress_def split: if_splits option.splits)

lemma run_once_running:
  assumes "\<not> waiting_for_keypress s" "fetch s = Inr instruction"
  shows "run_once F keys r s =
         execute F keys r instruction (s\<lparr>program_counter := program_counter s + 2\<rparr>)"
  using assms by (simp add: run_once_def poll_keypress_def)

lemma fetch_nonneg: "fetch s = Inr i \<Longrightarrow> 0 \<le> program_counter s"
  by (simp add: fetch_def mem_get_slice_def split: if_splits)

subsection \<open>Which branches raise UnimplementedInstruction\<close>

text \<open>
  Every exception of a branch other than the last comes from the store or from
  \<^verbatim>\<open>int.to_bytes\<close>.
\<close>

lemma raises_unimplemented_simps [simp]:
  "raises_unimplemented (Returned, sigs, s) = False"
  "raises_unimplemented (Raised OutOfBounds, sigs, s) = False"
  "raises_unimplemented (Raised OverflowError, sigs, s) = False"
  "raises_unimplemented (Raised ValueError, sigs, s) = False"
  "raises_unimplemented (Raised TypeError, sigs, s) = False"
  "raises_unimplemented (Raised IndexError, sigs, s) = False"
  "raises_unimplemented (Raised (UnimplementedInstruction i a), sigs, s) = True"
  by (simp_all add: raises_unimplemented_def)

lemma raises_unimplementedI:
  "fst res = Raised (UnimplementedInstruction i a) \<Longrightarrow> raises_unimplemented res"
  by (simp add: raises_unimplemented_def)

lemma mem_get_error: "mem_get m a = Inl e \<Longrightarrow> e = OutOfBounds"
  by (simp add: mem_get_def split: if_splits)

lemma mem_get_slice_error: "mem_get_slice m a b = Inl e \<Longrightarrow> e = OutOfBounds"
  by (simp add: mem_get_slice_def split: if_splits)

lemma mem_set_error: "mem_set m a x = Inl e \<Longrightarrow> e = OutOfBounds \<or> e = ValueError"
  by (simp add: mem_set_def split: if_splits)

lemma mem_set_slice_error: "mem_set_slice m a bs = Inl e \<Longrightarrow> e = OutOfBounds"
  by (simp add: mem_set_slice_def split: if_splits)

lemma to_bytes_big2_error: "to_bytes_big2 x = Inl e \<Longrightarrow> e = OverflowError"
  by (simp add: to_bytes_big2_def split: if_splits)

lemma store_registers_outcome:
  "fst (store_registers is s) \<in> {Returned, Raised OutOfBounds, Raised ValueError}"
proof (induction "is" arbitrary: s)
  case Nil
  then show ?case by simp
next
  case (Cons i rest)
  then show ?case
    by (auto split: sum.splits dest: mem_set_error)
qed

lemma load_registers_outcome:
  "fst (load_registers is s) \<in> {Returned, Raised OutOfBounds}"
proof (induction "is" arbitrary: s)
  case Nil
  then show ?case by simp
next
  case (Cons i rest)
  then show ?case
    by (auto split: sum.splits dest: mem_get_error)
qed

lemma op_return_no_unimplemented [simp]: "\<not> raises_unimplemented (op_return s)"
  by (auto simp: op_return_def Let_def split: sum.splits dest: mem_get_slice_error)

lemma op_jump_no_unimplemented [simp]: "\<not> raises_unimplemented (op_jump t s)"
  by (simp add: op_jump_def)

lemma op_call_no_unimplemented [simp]: "\<not> raises_unimplemented (op_call i s)"
  by (auto simp: op_call_def split: sum.splits
      dest: mem_set_slice_error to_bytes_big2_error)

lemma skip_if_no_unimplemented [simp]: "\<not> raises_unimplemented (skip_if c s)"
  by (simp add: skip_if_def)

lemma op_add_value_no_unimplemented [simp]: "\<not> raises_unimplemented (op_add_value i s)"
  by (simp add: op_add_value_def Let_def)

lemma op_add_no_unimplemented [simp]: "\<not> raises_unimplemented (op_add i s)"
  by (simp add: op_add_def Let_def split: prod.splits)

lemma op_sub_no_unimplemented [simp]: "\<not> raises_unimplemented (op_sub i s)"
  by (simp add: op_sub_def Let_def split: prod.splits)

lemma op_sub_reverse_no_unimplemented [simp]:
  "\<not> raises_unimplemented (op_sub_reverse i s)"
  by (simp add: op_sub_reverse_def Let_def split: prod.splits)

lemma op_shift_right_no_unimplemented [simp]:
  "\<not> raises_unimplemented (op_shift_right i s)"
  by (simp add: op_shift_right_def Let_def)

lemma op_shift_left_no_unimplemented [simp]:
  "\<not> raises_unimplemented (op_shift_left i s)"
  by (simp add: op_shift_left_def Let_def)

lemma op_draw_no_unimplemented [simp]: "\<not> raises_unimplemented (op_draw i s)"
  by (auto simp: op_draw_def Let_def split: sum.splits prod.splits
      dest: mem_get_slice_error)

lemma op_add_index_no_unimplemented [simp]: "\<not> raises_unimplemented (op_add_index i s)"
  by (simp add: op_add_index_def Let_def)

lemma op_bcd_no_unimplemented [simp]: "\<not> raises_unimplemented (op_bcd i s)"
  by (auto simp: op_bcd_def Let_def split: sum.splits dest: mem_set_error)

lemma store_registers_no_unimplemented [simp]:
  "\<not> raises_unimplemented (case store_registers is s of (out, s') \<Rightarrow> (out, [], s'))"
  using store_registers_outcome [of "is" s]
  by (auto simp: raises_unimplemented_def split: prod.splits)

lemma load_registers_no_unimplemented [simp]:
  "\<not> raises_unimplemented (case load_registers is s of (out, s') \<Rightarrow> (out, [], s'))"
  using load_registers_outcome [of "is" s]
  by (auto simp: raises_unimplemented_def split: prod.splits)

lemma execute_raises_unimplemented:
  "raises_unimplemented (execute F keys r instruction s) \<longrightarrow>
   execute F keys r instruction s = op_unimplemented instruction s"
  unfolding execute_def by (simp add: vm_reset_def)

subsection \<open>Bytes and slices\<close>

text \<open>
  Two bytes written big-endian read back as the same number, and a slice that was
  stored reads back.
\<close>

lemma from_bytes_to_bytes:
  assumes "0 \<le> x" "x < 65536"
  shows "from_bytes_big [word_of_int (x div 256), word_of_int (x mod 256)] = x"
proof -
  have "x div 256 < 256" using assms by simp
  then have "uint (word_of_int (x div 256) :: 8 word) = x div 256"
    using assms(1) by (simp add: uint_word_of_int take_bit_eq_mod)
  moreover have "uint (word_of_int (x mod 256) :: 8 word) = x mod 256"
    by (simp add: uint_word_of_int take_bit_eq_mod)
  ultimately show ?thesis
    by (simp add: from_bytes_big_def)
qed

lemma mem_get_slice_after_set:
  assumes "mem_set_slice m a bs = Inr m'"
  shows "mem_get_slice m' a (a + int (length bs)) = Inr bs"
proof -
  have b: "0 \<le> a" "a + int (length bs) \<le> int (length m)"
    and m': "m' = take (nat a) m @ bs @ drop (nat a + length bs) m"
    using assms by (auto simp: mem_set_slice_def split: if_splits)
  have l: "length (take (nat a) m) = nat a"
    using b by simp
  have "int (length m') = int (length m)"
    using b unfolding m' by simp
  moreover have "take (length bs) (drop (nat a) m') = bs"
    unfolding m' using l by simp
  ultimately show ?thesis
    using b by (simp add: mem_get_slice_def)
qed

subsection \<open>Evaluation on the concrete machines\<close>

text \<open>
  The facts with which the simplifier runs one cycle of a concrete machine.
\<close>

lemma fetch_booted:
  "fetch (booted regs (b1 # b0 # rest)) = Inr (uint b1 * 256 + uint b0)"
  by (simp add: fetch_def booted_def mem_get_slice_def from_bytes_big_def
      PROGRAM_COUNTER_START_def)

lemma find_key_5: "find (\<lambda>key. key_5 (int key)) [0..<16] = Some 5"
  by (rule find_upt_least) (simp_all add: key_5_def)

lemma find_no_key: "find (\<lambda>key. no_key (int key)) [0..<16] = None"
  by (rule find_upt_None) (simp add: no_key_def)

lemmas eval_defs = Let_def find_key_5 find_no_key run_once_def poll_keypress_def fetch_def mem_get_slice_def from_bytes_big_def
  booted_def awaiting_def PROGRAM_COUNTER_START_def STACK_POINTER_START_def
  execute_def set_v_def R1_def R2_def

section \<open>The claims\<close>

subsection \<open>C1: the left shift 8XYE\<close>

text \<open>
  What the branch does, for a register other than VF: VF receives bit 7 of the old value
  and the register receives twice the old value. No mask and no loop follows the shift,
  unlike the additions and subtractions next to it.
\<close>

lemma shift_left_result:
  assumes "\<not> waiting_for_keypress s" and "length (v s) = 16"
    and "fetch s = Inr instruction" and "instruction AND 0xF00F = 0x800E"
    and "R1 instruction \<noteq> 15"
  shows "run_once F keys r s =
           (Returned, [],
            s\<lparr>program_counter := program_counter s + 2,
              v := (v s)[15 := drop_bit 7 (v s ! R1 instruction AND 0x80),
                         R1 instruction := 2 * v s ! R1 instruction]\<rparr>)"
proof -
  have lt: "R1 instruction < length (v s)"
    using R1_less [of instruction] assms(2) by simp
  show ?thesis
    using assms(2,5) lt
    by (simp add: run_once_running [OF assms(1,3)] execute_shift_left [OF assms(4)]
        op_shift_left_def set_v_def mult.commute)
qed

text \<open>
  Claim C1: executing 8R1R2E sets V[F] to bit 7 of the old V[R1] and then sets V[R1] to
  (old V[R1] << 1) mod 256, so that V[R1] stays in [0,255]. The code does not reduce the
  shifted value: from V[0] = 128 the instruction 800E at address 512 leaves V[0] = 256
  (and V[F] = 1), where the claim gives V[0] = 0.
\<close>

theorem shift_left_not_masked:
  "run_once 0 no_key 0 (booted [128, 0, 0, 0, 0, 0, 0, 0, 0, 0, 0, 0, 0, 0, 0, 0] [0x80, 0x0E]) =
     (Returned, [],
      (booted [128, 0, 0, 0, 0, 0, 0, 0, 0, 0, 0, 0, 0, 0, 0, 0] [0x80, 0x0E])
        \<lparr>program_counter := 514,
         v := [256, 0, 0, 0, 0, 0, 0, 0, 0, 0, 0, 0, 0, 0, 0, 1]\<rparr>)"
  by (simp add: eval_defs op_shift_left_def)

subsection \<open>C2: a cycle of a machine that waits for a key\<close>

text \<open>
  Claim C2, as amended: while the emulator waits for a key, a call during which no key
  0..15 is pressed changes nothing at all; a call during which some key is pressed
  writes the lowest pressed key into the recorded target register, clears the flag, and
  then goes on in the same call to fetch and execute the instruction at the program
  counter (the \<^verbatim>\<open>break\<close> leaves the loop and the function continues below it).
\<close>

theorem awaiting_key_step:
  assumes "waiting_for_keypress s"
  shows "((\<forall>key<16. \<not> keys (int key)) \<longrightarrow> run_once F keys r s = (Returned, [], s))
       \<and> (key < 16 \<and> keys (int key) \<and> (\<forall>j<key. \<not> keys (int j))
            \<and> keypress_target s = Some t \<and> t < length (v s) \<longrightarrow>
          run_once F keys r s =
            (let s1 = s\<lparr>v := (v s)[t := int key], waiting_for_keypress := False\<rparr> in
             case fetch s1 of
               Inl e \<Rightarrow> (Raised e, [], s1)
             | Inr instruction \<Rightarrow>
                 execute F keys r instruction
                   (s1\<lparr>program_counter := program_counter s1 + 2\<rparr>)))"
proof (intro conjI impI)
  assume "\<forall>key<16. \<not> keys (int key)"
  then have "find (\<lambda>key. keys (int key)) [0..<16] = None"
    by (rule find_upt_None)
  then show "run_once F keys r s = (Returned, [], s)"
    using assms by (simp add: run_once_def poll_keypress_def)
next
  assume a: "key < 16 \<and> keys (int key) \<and> (\<forall>j<key. \<not> keys (int j))
            \<and> keypress_target s = Some t \<and> t < length (v s)"
  then have "find (\<lambda>key. keys (int key)) [0..<16] = Some key"
    by (intro find_upt_least) simp_all
  then show "run_once F keys r s =
            (let s1 = s\<lparr>v := (v s)[t := int key], waiting_for_keypress := False\<rparr> in
             case fetch s1 of
               Inl e \<Rightarrow> (Raised e, [], s1)
             | Inr instruction \<Rightarrow>
                 execute F keys r instruction
                   (s1\<lparr>program_counter := program_counter s1 + 2\<rparr>))"
    using assms a by (simp add: run_once_def poll_keypress_def Let_def)
qed

text \<open>
  The theorem at a machine that waits for a key with 6A07 at the program counter: with no
  key pressed the state is returned as it is; with key 5 pressed, V[0] receives 5 and the
  same call executes 6A07, so that V[A] = 7 and the program counter is 514.
\<close>

theorem awaiting_key_step_witness:
  "run_once 0 no_key 0 (awaiting [0, 0, 0, 0, 0, 0, 0, 0, 0, 0, 0, 0, 0, 0, 0, 0] [0x6A, 0x07]) =
     (Returned, [], awaiting [0, 0, 0, 0, 0, 0, 0, 0, 0, 0, 0, 0, 0, 0, 0, 0] [0x6A, 0x07])
   \<and> run_once 0 key_5 0 (awaiting [0, 0, 0, 0, 0, 0, 0, 0, 0, 0, 0, 0, 0, 0, 0, 0] [0x6A, 0x07]) =
     (Returned, [],
      (awaiting [0, 0, 0, 0, 0, 0, 0, 0, 0, 0, 0, 0, 0, 0, 0, 0] [0x6A, 0x07])
        \<lparr>v := [5, 0, 0, 0, 0, 0, 0, 0, 0, 0, 7, 0, 0, 0, 0, 0],
         waiting_for_keypress := False, program_counter := 514\<rparr>)"
proof -
  let ?s = "awaiting [0, 0, 0, 0, 0, 0, 0, 0, 0, 0, 0, 0, 0, 0, 0, 0] [0x6A, 0x07]"
  have w: "waiting_for_keypress ?s"
    by (simp add: awaiting_def)
  have a: "\<forall>key<16. \<not> no_key (int key)"
    by (simp add: no_key_def)
  have b: "(5::nat) < 16 \<and> key_5 (int 5) \<and> (\<forall>j<5. \<not> key_5 (int j))
            \<and> keypress_target ?s = Some 0 \<and> 0 < length (v ?s)"
    by (simp add: key_5_def awaiting_def booted_def)
  have 1: "run_once 0 no_key 0 ?s = (Returned, [], ?s)"
    using awaiting_key_step [OF w, of no_key 0 0] a by blast
  have 2: "run_once 0 key_5 0 ?s =
            (let s1 = ?s\<lparr>v := (v ?s)[0 := int 5], waiting_for_keypress := False\<rparr> in
             case fetch s1 of
               Inl e \<Rightarrow> (Raised e, [], s1)
             | Inr instruction \<Rightarrow>
                 execute 0 key_5 0 instruction
                   (s1\<lparr>program_counter := program_counter s1 + 2\<rparr>))"
    using awaiting_key_step [OF w, of key_5 0 0 5 0] b by blast
  have 3: "(let s1 = ?s\<lparr>v := (v ?s)[0 := int 5], waiting_for_keypress := False\<rparr> in
             case fetch s1 of
               Inl e \<Rightarrow> (Raised e, [], s1)
             | Inr instruction \<Rightarrow>
                 execute 0 key_5 0 instruction
                   (s1\<lparr>program_counter := program_counter s1 + 2\<rparr>)) =
     (Returned, [],
      ?s\<lparr>v := [5, 0, 0, 0, 0, 0, 0, 0, 0, 0, 7, 0, 0, 0, 0, 0],
         waiting_for_keypress := False, program_counter := 514\<rparr>)"
    by (simp add: eval_defs)
  show ?thesis
    using 1 2 3 by simp
qed

text \<open>
  Claim C2 as stated says that the call which stores the key fetches and executes
  nothing, so that it would return the state with only V[0] = 5 and the flag cleared. On
  the machine above the call returns another state.
\<close>

theorem awaiting_key_step_counterexample:
  "snd (snd (run_once 0 key_5 0 (awaiting [0, 0, 0, 0, 0, 0, 0, 0, 0, 0, 0, 0, 0, 0, 0, 0] [0x6A, 0x07])))
   \<noteq> (awaiting [0, 0, 0, 0, 0, 0, 0, 0, 0, 0, 0, 0, 0, 0, 0, 0] [0x6A, 0x07])
        \<lparr>v := [5, 0, 0, 0, 0, 0, 0, 0, 0, 0, 0, 0, 0, 0, 0, 0], waiting_for_keypress := False\<rparr>"
  by (simp add: eval_defs)

subsection \<open>C3: an instruction that matches no pattern\<close>

text \<open>
  Claim C3, as amended: for every fetched word that matches no opcode pattern, a call
  that reaches the fetch emits the error signal and then raises UnimplementedInstruction
  carrying exactly that word and the address it was fetched from; the call changes no
  byte of the store and no pixel, and the state it leaves is the state after the key
  poll with the program counter advanced by 2. When the emulator was not waiting for a
  key, the poll changes nothing, so no register is changed either; when it was waiting,
  the poll has already stored the pressed key in the target register.
\<close>

theorem unimplemented_instruction_fails:
  assumes "poll_keypress keys s = Inr (Some s1)"
    and "fetch s = Inr instruction" and "\<not> implemented instruction"
  shows "run_once F keys r s =
           (Raised (UnimplementedInstruction instruction (program_counter s)),
            [emulation_error (UnimplementedInstruction instruction (program_counter s))],
            s1\<lparr>program_counter := program_counter s + 2\<rparr>)
         \<and> memory s1 = memory s \<and> video_memory s1 = video_memory s
         \<and> (\<not> waiting_for_keypress s \<longrightarrow> s1 = s)"
proof -
  have f: "fetch s1 = Inr instruction"
    using poll_keypress_fetch [OF assms(1)] assms(2) by simp
  have "run_once F keys r s =
          op_unimplemented instruction (s1\<lparr>program_counter := program_counter s1 + 2\<rparr>)"
    using assms(1) f by (simp add: run_once_def execute_unimplemented [OF assms(3)])
  then show ?thesis
    using poll_keypress_frame [OF assms(1)] by (simp add: op_unimplemented_def Let_def)
qed

text \<open>The theorem at the word 0x0FFF, fetched from address 512.\<close>

theorem unimplemented_instruction_fails_witness:
  "run_once 0 no_key 0 (booted [0, 0, 0, 0, 0, 0, 0, 0, 0, 0, 0, 0, 0, 0, 0, 0] [0x0F, 0xFF]) =
     (Raised (UnimplementedInstruction 0x0FFF 512),
      [emulation_error (UnimplementedInstruction 0x0FFF 512)],
      (booted [0, 0, 0, 0, 0, 0, 0, 0, 0, 0, 0, 0, 0, 0, 0, 0] [0x0F, 0xFF])
        \<lparr>program_counter := 514\<rparr>)"
proof -
  let ?s = "booted [0, 0, 0, 0, 0, 0, 0, 0, 0, 0, 0, 0, 0, 0, 0, 0] [0x0F, 0xFF]"
  have p: "poll_keypress no_key ?s = Inr (Some ?s)"
    by (simp add: poll_keypress_def booted_def)
  have f: "fetch ?s = Inr 0x0FFF"
    by (simp add: fetch_booted)
  show ?thesis
    using unimplemented_instruction_fails [OF p f not_implemented_0FFF, of 0 0]
    by (simp add: booted_def PROGRAM_COUNTER_START_def)
qed

text \<open>
  Claim C3 as stated says that such a call changes no register. A machine that waits for
  a key, with key 5 pressed and 0x0FFF at the program counter, raises
  UnimplementedInstruction and has changed V[0].
\<close>

theorem unimplemented_instruction_counterexample:
  "fst (run_once 0 key_5 0 (awaiting [0, 0, 0, 0, 0, 0, 0, 0, 0, 0, 0, 0, 0, 0, 0, 0] [0x0F, 0xFF]))
     = Raised (UnimplementedInstruction 0x0FFF 512)
   \<and> v (snd (snd (run_once 0 key_5 0
          (awaiting [0, 0, 0, 0, 0, 0, 0, 0, 0, 0, 0, 0, 0, 0, 0, 0] [0x0F, 0xFF]))))
     \<noteq> v (awaiting [0, 0, 0, 0, 0, 0, 0, 0, 0, 0, 0, 0, 0, 0, 0, 0] [0x0F, 0xFF])"
  by (simp add: eval_defs op_unimplemented_def)

subsection \<open>C4: the addition 8XY4\<close>

text \<open>
  Claim C4, as amended: for all register indices R1, R2 and all a, b in [0,255],
  executing 8R1R24 from a state with V[R1] = a and V[R2] = b yields V[F] = 1 if
  a + b > 255 and V[F] = 0 otherwise, and, when R1 is not F, V[R1] = (a + b) mod 256.
  The flag is written last, so when R1 is F the register holds the flag.
\<close>

theorem add_registers_carry:
  assumes "\<not> waiting_for_keypress s" and "length (v s) = 16"
    and "fetch s = Inr instruction" and "instruction AND 0xF00F = 0x8004"
    and "v s ! R1 instruction = a" and "v s ! R2 instruction = b"
    and "0 \<le> a" and "a \<le> 255" and "0 \<le> b" and "b \<le> 255"
  shows "run_once F keys r s =
           (Returned, [],
            s\<lparr>program_counter := program_counter s + 2,
              v := (v s)[R1 instruction := (a + b) mod 256,
                         15 := (if a + b > 255 then 1 else 0)]\<rparr>)
         \<and> v (snd (snd (run_once F keys r s))) ! 15 = (if a + b > 255 then 1 else 0)
         \<and> (R1 instruction \<noteq> 15 \<longrightarrow>
              v (snd (snd (run_once F keys r s))) ! R1 instruction = (a + b) mod 256)"
proof -
  have lt: "R1 instruction < length (v s)"
    using R1_less [of instruction] assms(2) by simp
  have loop: "sub256_loop (a + b) False = ((a + b) mod 256, a + b > 255)"
    using assms(7,9) by (simp add: prod_eq_iff sub256_loop_fst sub256_loop_snd)
  have eq: "run_once F keys r s =
           (Returned, [],
            s\<lparr>program_counter := program_counter s + 2,
              v := (v s)[R1 instruction := (a + b) mod 256,
                         15 := (if a + b > 255 then 1 else 0)]\<rparr>)"
    using assms(5,6) lt loop
    by (simp add: run_once_running [OF assms(1,3)] execute_add [OF assms(4)]
        op_add_def set_v_def)
  show ?thesis
    using eq lt assms(2) by simp
qed

text \<open>The theorem at 8014 with V[0] = 200 and V[1] = 100: V[0] = 44 and V[F] = 1.\<close>

theorem add_registers_carry_witness:
  "run_once 0 no_key 0 (booted [200, 100, 0, 0, 0, 0, 0, 0, 0, 0, 0, 0, 0, 0, 0, 0] [0x80, 0x14]) =
     (Returned, [],
      (booted [200, 100, 0, 0, 0, 0, 0, 0, 0, 0, 0, 0, 0, 0, 0, 0] [0x80, 0x14])
        \<lparr>program_counter := 514,
         v := [44, 100, 0, 0, 0, 0, 0, 0, 0, 0, 0, 0, 0, 0, 0, 1]\<rparr>)"
proof -
  let ?s = "booted [200, 100, 0, 0, 0, 0, 0, 0, 0, 0, 0, 0, 0, 0, 0, 0] [0x80, 0x14]"
  have 1: "\<not> waiting_for_keypress ?s" and 2: "length (v ?s) = 16"
    by (simp_all add: booted_def)
  have 3: "fetch ?s = Inr 0x8014"
    by (simp add: fetch_booted)
  have 4: "(0x8014::int) AND 0xF00F = 0x8004"
    by simp
  have 5: "v ?s ! R1 0x8014 = 200" and 6: "v ?s ! R2 0x8014 = 100"
    by (simp_all add: booted_def R1_def R2_def)
  show ?thesis
    using add_registers_carry [OF 1 2 3 4 5 6, of 0 no_key 0]
    by (simp add: booted_def R1_def PROGRAM_COUNTER_START_def)
qed

text \<open>
  Claim C4 as stated covers R1 = F. With V[F] = 1 and V[0] = 1 the instruction 8F04
  leaves V[F] = 0, not (1 + 1) mod 256.
\<close>

theorem add_registers_carry_counterexample:
  "v (snd (snd (run_once 0 no_key 0
        (booted [1, 0, 0, 0, 0, 0, 0, 0, 0, 0, 0, 0, 0, 0, 0, 1] [0x8F, 0x04]))))
     ! R1 0x8F04
   \<noteq> (v (booted [1, 0, 0, 0, 0, 0, 0, 0, 0, 0, 0, 0, 0, 0, 0, 1] [0x8F, 0x04]) ! R1 0x8F04
      + v (booted [1, 0, 0, 0, 0, 0, 0, 0, 0, 0, 0, 0, 0, 0, 0, 1] [0x8F, 0x04]) ! R2 0x8F04)
     mod 256"
  by (simp add: eval_defs op_add_def sub256_loop.simps)

subsection \<open>C5: the addition of a constant 7XNN\<close>

text \<open>
  Claim C5, as amended: for every register index R1, every old value of V[R1] in [0,255]
  and every immediate NN, executing 7R1NN sets V[R1] to (old V[R1] + NN) mod 256 and
  changes no other register; so V[F] is unmodified whenever R1 is not F.
\<close>

theorem add_value_wraps:
  assumes "\<not> waiting_for_keypress s" and "length (v s) = 16"
    and "fetch s = Inr instruction" and "instruction AND 0xF000 = 0x7000"
    and "0 \<le> v s ! R1 instruction" and "v s ! R1 instruction \<le> 255"
  shows "run_once F keys r s =
           (Returned, [],
            s\<lparr>program_counter := program_counter s + 2,
              v := (v s)[R1 instruction :=
                          (v s ! R1 instruction + (instruction AND 0x00FF)) mod 256]\<rparr>)
         \<and> (R1 instruction \<noteq> 15 \<longrightarrow>
              v (snd (snd (run_once F keys r s))) ! 15 = v s ! 15)"
proof -
  have lt: "R1 instruction < length (v s)"
    using R1_less [of instruction] assms(2) by simp
  have nn: "0 \<le> instruction AND 0x00FF"
    by simp
  have eq: "run_once F keys r s =
           (Returned, [],
            s\<lparr>program_counter := program_counter s + 2,
              v := (v s)[R1 instruction :=
                          (v s ! R1 instruction + (instruction AND 0x00FF)) mod 256]\<rparr>)"
    using assms(5) nn lt
    by (simp add: run_once_running [OF assms(1,3)] execute_add_value [OF assms(4)]
        op_add_value_def set_v_def sub256_loop_fst)
  show ?thesis
    using eq by simp
qed

text \<open>The theorem at 700A with V[0] = 250 and V[F] = 9: V[0] = 4 and V[F] = 9.\<close>

theorem add_value_wraps_witness:
  "run_once 0 no_key 0 (booted [250, 0, 0, 0, 0, 0, 0, 0, 0, 0, 0, 0, 0, 0, 0, 9] [0x70, 0x0A]) =
     (Returned, [],
      (booted [250, 0, 0, 0, 0, 0, 0, 0, 0, 0, 0, 0, 0, 0, 0, 9] [0x70, 0x0A])
        \<lparr>program_counter := 514,
         v := [4, 0, 0, 0, 0, 0, 0, 0, 0, 0, 0, 0, 0, 0, 0, 9]\<rparr>)"
proof -
  let ?s = "booted [250, 0, 0, 0, 0, 0, 0, 0, 0, 0, 0, 0, 0, 0, 0, 9] [0x70, 0x0A]"
  have 1: "\<not> waiting_for_keypress ?s" and 2: "length (v ?s) = 16"
    by (simp_all add: booted_def)
  have 3: "fetch ?s = Inr 0x700A"
    by (simp add: fetch_booted)
  have 4: "(0x700A::int) AND 0xF000 = 0x7000"
    by simp
  have 5: "0 \<le> v ?s ! R1 0x700A" and 6: "v ?s ! R1 0x700A \<le> 255"
    by (simp_all add: booted_def R1_def)
  show ?thesis
    using add_value_wraps [OF 1 2 3 4 5 6, of 0 no_key 0]
    by (simp add: booted_def R1_def PROGRAM_COUNTER_START_def)
qed

text \<open>
  Claim C5 as stated covers R1 = F, where V[F] is the destination: 7F01 from V[F] = 0
  leaves V[F] = 1.
\<close>

theorem add_value_wraps_counterexample:
  "v (snd (snd (run_once 0 no_key 0
        (booted [0, 0, 0, 0, 0, 0, 0, 0, 0, 0, 0, 0, 0, 0, 0, 0] [0x7F, 0x01])))) ! 15
   \<noteq> v (booted [0, 0, 0, 0, 0, 0, 0, 0, 0, 0, 0, 0, 0, 0, 0, 0] [0x7F, 0x01]) ! 15"
  by (simp add: eval_defs op_add_value_def sub256_loop.simps)

subsection \<open>C6: call and return\<close>

text \<open>
  Claim C6: 2NNN writes the already advanced program counter as two big-endian bytes at
  the stack pointer, increments the stack pointer by 2 and jumps to NNN; when the
  instruction found at NNN is 00EE, the next call decrements the stack pointer by 2,
  reads the two bytes there into the program counter, and so restores the program
  counter to the address after the call instruction and the stack pointer to its value
  before the call. The call succeeds when the two bytes at the stack pointer lie inside
  the store and the return address fits two bytes; the return then succeeds as well.
\<close>

theorem call_then_return_round_trip:
  assumes "\<not> waiting_for_keypress s" and "fetch s = Inr instruction"
    and "instruction AND 0xF000 = 0x2000"
    and "program_counter s + 2 < 65536"
    and "0 \<le> stack_pointer s" and "stack_pointer s + 2 \<le> int (length (memory s))"
    and "run_once F keys r s = (out, sigs, s1)"
    and "fetch s1 = Inr 0x00EE"
  shows "out = Returned
       \<and> program_counter s1 = instruction AND 0x0FFF
       \<and> stack_pointer s1 = stack_pointer s + 2
       \<and> mem_get_slice (memory s1) (stack_pointer s) (stack_pointer s + 2) =
           Inr [word_of_int ((program_counter s + 2) div 256),
                word_of_int ((program_counter s + 2) mod 256)]
       \<and> run_once F' keys' r' s1 =
           (Returned, [],
            s1\<lparr>stack_pointer := stack_pointer s, program_counter := program_counter s + 2\<rparr>)"
proof -
  let ?pc = "program_counter s + 2"
  let ?bs = "[word_of_int (?pc div 256), word_of_int (?pc mod 256)] :: 8 word list"
  have pc: "0 \<le> ?pc" using fetch_nonneg [OF assms(2)] by simp
  have tb: "to_bytes_big2 ?pc = Inr ?bs"
    using pc assms(4) by (simp add: to_bytes_big2_def)
  obtain m where set: "mem_set_slice (memory s) (stack_pointer s) ?bs = Inr m"
    using assms(5,6) by (simp add: mem_set_slice_def)
  have call: "run_once F keys r s =
          (Returned, [],
           s\<lparr>program_counter := instruction AND 0x0FFF, memory := m,
             stack_pointer := stack_pointer s + 2\<rparr>)"
    using tb set
    by (simp add: run_once_running [OF assms(1,2)] execute_call [OF assms(3)] op_call_def)
  then have s1: "s1 = s\<lparr>program_counter := instruction AND 0x0FFF, memory := m,
             stack_pointer := stack_pointer s + 2\<rparr>" and out: "out = Returned"
    using assms(7) by simp_all
  have get: "mem_get_slice m (stack_pointer s) (stack_pointer s + 2) = Inr ?bs"
    using mem_get_slice_after_set [OF set] by simp
  have w: "\<not> waiting_for_keypress s1"
    using assms(1) s1 by simp
  have f1: "memory s1 = m" "stack_pointer s1 = stack_pointer s + 2"
    by (simp_all add: s1)
  have ret: "run_once F' keys' r' s1 =
           (Returned, [],
            s1\<lparr>stack_pointer := stack_pointer s, program_counter := ?pc\<rparr>)"
    using get from_bytes_to_bytes [OF pc assms(4)] f1
    by (simp add: run_once_running [OF w assms(8)] execute_return op_return_def)
  show ?thesis
    using out ret get by (simp add: s1)
qed

text \<open>
  The theorem at a ROM with 2204 at address 512 and 00EE at address 516: after the two
  calls the program counter is 514 and the stack pointer is 82.
\<close>

theorem call_then_return_round_trip_witness:
  "run_once 0 no_key 0 (snd (snd (run_once 0 no_key 0
      (booted [0, 0, 0, 0, 0, 0, 0, 0, 0, 0, 0, 0, 0, 0, 0, 0]
         [0x22, 0x04, 0x00, 0x00, 0x00, 0xEE])))) =
   (Returned, [],
    (snd (snd (run_once 0 no_key 0
      (booted [0, 0, 0, 0, 0, 0, 0, 0, 0, 0, 0, 0, 0, 0, 0, 0]
         [0x22, 0x04, 0x00, 0x00, 0x00, 0xEE]))))
      \<lparr>stack_pointer := 82, program_counter := 514\<rparr>)"
proof -
  let ?s = "booted [0, 0, 0, 0, 0, 0, 0, 0, 0, 0, 0, 0, 0, 0, 0, 0]
              [0x22, 0x04, 0x00, 0x00, 0x00, 0xEE]"
  let ?res = "run_once 0 no_key 0 ?s"
  have 1: "\<not> waiting_for_keypress ?s"
    by (simp add: booted_def)
  have 2: "fetch ?s = Inr 0x2204"
    by (simp add: fetch_booted)
  have 3: "(0x2204::int) AND 0xF000 = 0x2000"
    by simp
  have 4: "program_counter ?s + 2 < 65536" and 5: "0 \<le> stack_pointer ?s"
    and 6: "stack_pointer ?s + 2 \<le> int (length (memory ?s))"
    by (simp_all add: booted_def PROGRAM_COUNTER_START_def STACK_POINTER_START_def)
  have 7: "?res = (fst ?res, fst (snd ?res), snd (snd ?res))"
    by simp
  have 8: "fetch (snd (snd ?res)) = Inr 0x00EE"
    by (simp add: eval_defs op_call_def to_bytes_big2_def mem_set_slice_def)
  show ?thesis
    using call_then_return_round_trip [OF 1 2 3 4 5 6 7 8, of 0 no_key 0]
    by (simp add: booted_def PROGRAM_COUNTER_START_def STACK_POINTER_START_def)
qed

subsection \<open>C7: jumps and the pause request\<close>

text \<open>
  Claim C7: 1NNN sets the program counter to NNN and asks the host to pause exactly when
  NNN is the address the instruction was fetched from; BNNN does the same with the
  target NNN + V[0]. The jump is performed whether or not the host is asked to pause.
\<close>

theorem jump_signals_self_loop:
  assumes "\<not> waiting_for_keypress s" and "fetch s = Inr instruction"
  shows "(instruction AND 0xF000 = 0x1000 \<longrightarrow>
            run_once F keys r s =
              (Returned,
               (if instruction AND 0x0FFF = program_counter s
                then [actionPause_setChecked True] else []),
               s\<lparr>program_counter := instruction AND 0x0FFF\<rparr>))
       \<and> (instruction AND 0xF000 = 0xB000 \<longrightarrow>
            run_once F keys r s =
              (Returned,
               (if (instruction AND 0x0FFF) + v s ! 0 = program_counter s
                then [actionPause_setChecked True] else []),
               s\<lparr>program_counter := (instruction AND 0x0FFF) + v s ! 0\<rparr>))"
proof (intro conjI impI)
  assume "instruction AND 0xF000 = 0x1000"
  then show "run_once F keys r s =
              (Returned,
               (if instruction AND 0x0FFF = program_counter s
                then [actionPause_setChecked True] else []),
               s\<lparr>program_counter := instruction AND 0x0FFF\<rparr>)"
    by (auto simp: run_once_running [OF assms] execute_jump op_jump_def)
next
  assume "instruction AND 0xF000 = 0xB000"
  then show "run_once F keys r s =
              (Returned,
               (if (instruction AND 0x0FFF) + v s ! 0 = program_counter s
                then [actionPause_setChecked True] else []),
               s\<lparr>program_counter := (instruction AND 0x0FFF) + v s ! 0\<rparr>)"
    by (auto simp: run_once_running [OF assms] execute_jump_offset op_jump_def)
qed

text \<open>
  The theorem at 1200 fetched from address 512 (a jump to itself, with the pause
  request) and at B200 with V[0] = 4 (a jump to 516, without it).
\<close>

theorem jump_signals_self_loop_witness:
  "run_once 0 no_key 0 (booted [4, 0, 0, 0, 0, 0, 0, 0, 0, 0, 0, 0, 0, 0, 0, 0] [0x12, 0x00]) =
     (Returned, [actionPause_setChecked True],
      booted [4, 0, 0, 0, 0, 0, 0, 0, 0, 0, 0, 0, 0, 0, 0, 0] [0x12, 0x00])
   \<and> run_once 0 no_key 0 (booted [4, 0, 0, 0, 0, 0, 0, 0, 0, 0, 0, 0, 0, 0, 0, 0] [0xB2, 0x00]) =
     (Returned, [],
      (booted [4, 0, 0, 0, 0, 0, 0, 0, 0, 0, 0, 0, 0, 0, 0, 0] [0xB2, 0x00])
        \<lparr>program_counter := 516\<rparr>)"
proof -
  let ?a = "booted [4, 0, 0, 0, 0, 0, 0, 0, 0, 0, 0, 0, 0, 0, 0, 0] [0x12, 0x00]"
  let ?b = "booted [4, 0, 0, 0, 0, 0, 0, 0, 0, 0, 0, 0, 0, 0, 0, 0] [0xB2, 0x00]"
  have wa: "\<not> waiting_for_keypress ?a" and wb: "\<not> waiting_for_keypress ?b"
    by (simp_all add: booted_def)
  have fa: "fetch ?a = Inr 0x1200" and fb: "fetch ?b = Inr 0xB200"
    by (simp_all add: fetch_booted)
  have pa: "?a\<lparr>program_counter := 512\<rparr> = ?a"
    by (simp add: booted_def PROGRAM_COUNTER_START_def)
  show ?thesis
    using jump_signals_self_loop [OF wa fa, of 0 no_key 0]
      jump_signals_self_loop [OF wb fb, of 0 no_key 0] pa
    by (simp add: booted_def PROGRAM_COUNTER_START_def)
qed

subsection \<open>C8: binary coded decimal FX33\<close>

text \<open>
  Claim C8: for every register index R1 and every value x = V[R1] in [0,255], executing
  FR133 writes the three bytes x div 100, (x mod 100) div 10 and x mod 10 at the
  addresses index_register, index_register + 1 and index_register + 2 and changes
  nothing else (the program counter has been advanced by the fetch). The three
  addresses are taken to lie inside the store.
\<close>

theorem bcd_writes_three_digits:
  assumes "\<not> waiting_for_keypress s" and "fetch s = Inr instruction"
    and "instruction AND 0xF0FF = 0xF033"
    and "0 \<le> v s ! R1 instruction" and "v s ! R1 instruction \<le> 255"
    and "0 \<le> index_register s"
    and "index_register s + 3 \<le> int (length (memory s))"
  shows "run_once F keys r s =
           (Returned, [],
            s\<lparr>program_counter := program_counter s + 2,
              memory := (memory s)
                [nat (index_register s) := word_of_int (v s ! R1 instruction div 100),
                 nat (index_register s + 1) := word_of_int (v s ! R1 instruction mod 100 div 10),
                 nat (index_register s + 2) := word_of_int (v s ! R1 instruction mod 10)]\<rparr>)"
proof -
  define x where "x = v s ! R1 instruction"
  have d: "0 \<le> x div 100" "x div 100 \<le> 255" "0 \<le> x mod 100 div 10"
    "x mod 100 div 10 \<le> 255" "0 \<le> x mod 100 mod 10" "x mod 100 mod 10 \<le> 255"
    using assms(4,5) unfolding x_def by auto
  have e: "x mod 100 mod 10 = x mod 10"
    by (simp add: mod_mod_cancel)
  show ?thesis
    using assms(6,7) d e unfolding x_def [symmetric]
    by (simp add: run_once_running [OF assms(1,2)] execute_bcd [OF assms(3)]
        op_bcd_def mem_set_def Let_def x_def [symmetric])
qed

text \<open>The theorem at V[0] = 157 and index register 0x300: the bytes written are 1, 5, 7.\<close>

theorem bcd_writes_three_digits_witness:
  "run_once 0 no_key 0
     ((booted [157, 0, 0, 0, 0, 0, 0, 0, 0, 0, 0, 0, 0, 0, 0, 0] [0xF0, 0x33])
        \<lparr>index_register := 0x300\<rparr>) =
     (Returned, [],
      (booted [157, 0, 0, 0, 0, 0, 0, 0, 0, 0, 0, 0, 0, 0, 0, 0] [0xF0, 0x33])
        \<lparr>index_register := 0x300, program_counter := 514,
         memory := (memory (booted [157, 0, 0, 0, 0, 0, 0, 0, 0, 0, 0, 0, 0, 0, 0, 0]
                      [0xF0, 0x33]))[0x300 := 1, 0x301 := 5, 0x302 := 7]\<rparr>)"
proof -
  let ?s = "(booted [157, 0, 0, 0, 0, 0, 0, 0, 0, 0, 0, 0, 0, 0, 0, 0] [0xF0, 0x33])
              \<lparr>index_register := 0x300\<rparr>"
  have 1: "\<not> waiting_for_keypress ?s"
    by (simp add: booted_def)
  have 2: "fetch ?s = Inr 0xF033"
    using fetch_booted [of "[157, 0, 0, 0, 0, 0, 0, 0, 0, 0, 0, 0, 0, 0, 0, 0]" "0xF0" "0x33" "[]"]
    by (simp add: fetch_def)
  have 3: "(0xF033::int) AND 0xF0FF = 0xF033"
    by simp
  have 4: "0 \<le> v ?s ! R1 0xF033" and 5: "v ?s ! R1 0xF033 \<le> 255"
    and 6: "0 \<le> index_register ?s" and 7: "index_register ?s + 3 \<le> int (length (memory ?s))"
    by (simp_all add: booted_def R1_def)
  show ?thesis
    using bcd_writes_three_digits [OF 1 2 3 4 5 6 7, of 0 no_key 0]
    by (simp add: booted_def R1_def PROGRAM_COUNTER_START_def)
qed

subsection \<open>C9: the program counter after UnimplementedInstruction\<close>

text \<open>
  Claim C9: whenever a call raises UnimplementedInstruction, the address it reports is
  the program counter the call started from, and the program counter the call leaves
  is that address plus 2: the advance made right after the fetch is not undone.
\<close>

theorem unimplemented_leaves_pc_advanced:
  assumes "fst (run_once F keys r s) = Raised (UnimplementedInstruction instruction address)"
  shows "address = program_counter s
       \<and> program_counter (snd (snd (run_once F keys r s))) = address + 2"
proof (cases "poll_keypress keys s")
  case (Inl e)
  then have "fst (run_once F keys r s) = Raised e"
    by (simp add: run_once_def)
  moreover have "e = TypeError \<or> e = IndexError"
    using Inl by (auto simp: poll_keypress_def split: if_splits option.splits)
  ultimately show ?thesis using assms by auto
next
  case (Inr p)
  show ?thesis
  proof (cases p)
    case None
    then show ?thesis using Inr assms by (simp add: run_once_def)
  next
    case (Some s1)
    note poll = Inr [unfolded Some]
    show ?thesis
    proof (cases "fetch s1")
      case (Inl e)
      then have "e = OutOfBounds"
        by (auto simp: fetch_def split: sum.splits dest: mem_get_slice_error)
      then show ?thesis using poll Inl assms by (simp add: run_once_def)
    next
      case fi: (Inr i)
      let ?s2 = "s1\<lparr>program_counter := program_counter s1 + 2\<rparr>"
      have run: "run_once F keys r s = execute F keys r i ?s2"
        using poll fi by (simp add: run_once_def)
      then have "raises_unimplemented (execute F keys r i ?s2)"
        using assms raises_unimplementedI by metis
      then have "execute F keys r i ?s2 = op_unimplemented i ?s2"
        using execute_raises_unimplemented by blast
      then show ?thesis
        using run assms poll_keypress_frame(3) [OF poll]
        by (simp add: op_unimplemented_def Let_def)
    qed
  qed
qed

text \<open>The theorem at the word 0x0FFF fetched from address 512.\<close>

theorem unimplemented_leaves_pc_advanced_witness:
  "program_counter (snd (snd (run_once 0 no_key 0
      (booted [0, 0, 0, 0, 0, 0, 0, 0, 0, 0, 0, 0, 0, 0, 0, 0] [0x0F, 0xFF])))) = 514"
proof -
  let ?s = "booted [0, 0, 0, 0, 0, 0, 0, 0, 0, 0, 0, 0, 0, 0, 0, 0] [0x0F, 0xFF]"
  have "fst (run_once 0 no_key 0 ?s) = Raised (UnimplementedInstruction 0x0FFF 512)"
    by (simp add: eval_defs op_unimplemented_def)
  from unimplemented_leaves_pc_advanced [OF this] show ?thesis
    by simp
qed

subsection \<open>C10: determinism outside CXNN\<close>

text \<open>
  Claim C10: the state, the key predicate and the value drawn by \<^verbatim>\<open>randint\<close> are all
  the inputs of a call. When the instruction at the program counter is not of the CXNN
  family, the value drawn has no influence: two calls from the same state with the same
  key predicate return the same outcome, the same signals and the same state.
\<close>

theorem run_once_independent_of_randint:
  assumes "\<forall>instruction. fetch s = Inr instruction \<longrightarrow> instruction AND 0xF000 \<noteq> 0xC000"
  shows "run_once F keys r1 s = run_once F keys r2 s"
proof (cases "poll_keypress keys s")
  case (Inl e)
  then show ?thesis by (simp add: run_once_def)
next
  case (Inr p)
  show ?thesis
  proof (cases p)
    case None
    then show ?thesis using Inr by (simp add: run_once_def)
  next
    case (Some s1)
    then have f: "fetch s1 = fetch s"
      using Inr poll_keypress_fetch by simp
    show ?thesis
    proof (cases "fetch s")
      case (Inl e)
      then show ?thesis using Inr Some f by (simp add: run_once_def)
    next
      case fi: (Inr instruction)
      then have "instruction AND 0xF000 \<noteq> 0xC000"
        using assms by simp
      then show ?thesis
        using Inr Some f fi
        by (simp add: run_once_def
            execute_rand_irrelevant [of instruction F keys r1 _ r2])
    qed
  qed
qed

text \<open>The theorem at 602A, for the draws 0 and 255.\<close>

theorem run_once_independent_of_randint_witness:
  "run_once 0 no_key 0 (booted [0, 0, 0, 0, 0, 0, 0, 0, 0, 0, 0, 0, 0, 0, 0, 0] [0x60, 0x2A]) =
   run_once 0 no_key 255 (booted [0, 0, 0, 0, 0, 0, 0, 0, 0, 0, 0, 0, 0, 0, 0, 0] [0x60, 0x2A])"
proof -
  let ?s = "booted [0, 0, 0, 0, 0, 0, 0, 0, 0, 0, 0, 0, 0, 0, 0, 0] [0x60, 0x2A]"
  have "\<forall>instruction. fetch ?s = Inr instruction \<longrightarrow> instruction AND 0xF000 \<noteq> 0xC000"
    by (simp add: fetch_booted)
  from run_once_independent_of_randint [OF this] show ?thesis .
qed

text \<open>The exception is real: CXNN with NN = 0xFF returns the draw itself.\<close>

lemma random_instruction_depends_on_randint:
  "run_once 0 no_key 0 (booted [0, 0, 0, 0, 0, 0, 0, 0, 0, 0, 0, 0, 0, 0, 0, 0] [0xC0, 0xFF]) \<noteq>
   run_once 0 no_key 255 (booted [0, 0, 0, 0, 0, 0, 0, 0, 0, 0, 0, 0, 0, 0, 0, 0] [0xC0, 0xFF])"
  by (simp add: eval_defs)

end
